theory Spec2Isabelle
  imports Complex_Main "HOL-Library.List_Lexorder" "HOL-Library.Char_ord"
begin

section \<open>Data model\<close>

text \<open>
  The pages compute their figures from the transaction list returned by the
  backend.  A transaction is the TypeScript interface
  \<^verbatim>\<open>{ id; type; product?: { name }; quantity; amount; created_at }\<close>.
  The \<^verbatim>\<open>type\<close> field stays a string, as in the source, which compares it with
  the literals 'Sale', 'Expense' and 'Withdrawal'.  The optional product is
  represented by its name; a quantity the backend left out is \<open>None\<close>.
  The amounts are JavaScript numbers, idealised as exact rationals: the
  rounding of IEEE doubles, NaN and the infinities are outside this model of
  the amounts.  The timestamp
  \<^verbatim>\<open>created_at\<close> is represented by the time value that
  \<^verbatim>\<open>new Date(t.created_at)\<close> yields, in milliseconds since the epoch.
\<close>

record transaction =
  tid :: string
  ttype :: string
  product :: "string option"
  quantity :: "int option"
  amount :: rat
  created_at :: int

definition isSale :: "transaction \<Rightarrow> bool" where
  "isSale t = (ttype t = ''Sale'')"

text \<open>\<^verbatim>\<open>t.quantity || 0\<close>: a missing quantity and the quantity 0 both give 0.\<close>

definition quantityOr0 :: "transaction \<Rightarrow> int" where
  "quantityOr0 t = (case quantity t of None \<Rightarrow> 0 | Some q \<Rightarrow> if q = 0 then 0 else q)"

section \<open>Totals of the transactions page\<close>

text \<open>
  \<^verbatim>\<open>transactions.filter((t) => t.type === 'Sale')
      .reduce((sum, t) => sum + (t.quantity || 0), 0)\<close>
\<close>

definition totalItemsSold :: "transaction list \<Rightarrow> int" where
  "totalItemsSold transactions =
     foldl (\<lambda>sum t. sum + quantityOr0 t) 0 (filter isSale transactions)"

section \<open>Dates\<close>

text \<open>
  A JavaScript \<^verbatim>\<open>Date\<close> is its time value, an integer number of milliseconds
  since 1970-01-01T00:00Z.  \<open>Day\<close>, \<open>TimeWithinDay\<close> and \<open>WeekDay\<close> are the
  abstract operations of the ECMAScript specification (0 is Sunday).
\<close>

definition msPerDay :: int where
  "msPerDay = 86400000"

definition Day :: "int \<Rightarrow> int" where
  "Day t = t div msPerDay"

definition TimeWithinDay :: "int \<Rightarrow> int" where
  "TimeWithinDay t = t mod msPerDay"

definition WeekDay :: "int \<Rightarrow> int" where
  "WeekDay t = (Day t + 4) mod 7"

text \<open>
  The proleptic Gregorian date (year, month 1..12, day of month) of a day
  number counted from 1970-01-01, computed era by era (an era is 400 years,
  146097 days, starting on 1 March).
\<close>

definition civil :: "int \<Rightarrow> int \<times> int \<times> int" where
  "civil z =
     (let z1 = z + 719468;
          era = z1 div 146097;
          doe = z1 - era * 146097;
          yoe = (doe - doe div 1460 + doe div 36524 - doe div 146096) div 365;
          doy = doe - (365 * yoe + yoe div 4 - yoe div 100);
          mp = (5 * doy + 2) div 153;
          d = doy - (153 * mp + 2) div 5 + 1;
          m = (if mp < 10 then mp + 3 else mp - 9);
          y = yoe + era * 400 + (if m \<le> 2 then 1 else 0)
      in (y, m, d))"

definition MonthFromTime :: "int \<Rightarrow> int" where
  "MonthFromTime t = fst (snd (civil (Day t))) - 1"

definition DateFromTime :: "int \<Rightarrow> int" where
  "DateFromTime t = snd (snd (civil (Day t)))"

text \<open>
  The zone of the browser is a parameter \<open>tz\<close>, the offset of local time from
  UTC in milliseconds, taken constant over the dates at hand (a zone without
  a daylight-saving change in the period).  Where the clock changes inside a
  range, \<^verbatim>\<open>setDate\<close> keeps the local hour, the steps of the loop are no
  longer 24 hours long and the loop can stop a day early; this model does not
  cover that.
\<close>

definition LocalTime :: "int \<Rightarrow> int \<Rightarrow> int" where
  "LocalTime tz t = t + tz"

definition UTC :: "int \<Rightarrow> int \<Rightarrow> int" where
  "UTC tz t = t - tz"

definition getDay :: "int \<Rightarrow> int \<Rightarrow> int" where
  "getDay tz t = WeekDay (LocalTime tz t)"

definition getDate :: "int \<Rightarrow> int \<Rightarrow> int" where
  "getDate tz t = DateFromTime (LocalTime tz t)"

text \<open>
  \<^verbatim>\<open>setDate(dt)\<close> keeps the local year, month and time of day and sets the day
  of the month; \<open>dt\<close> outside the month runs over into the neighbouring
  months (\<^verbatim>\<open>MakeDay\<close> adds \<open>dt - 1\<close> days to the first day of the month).  The
  result is the new time value.
\<close>

definition setDate :: "int \<Rightarrow> int \<Rightarrow> int \<Rightarrow> int" where
  "setDate tz t dt =
     (let lt = LocalTime tz t;
          firstOfMonth = Day lt - (DateFromTime lt - 1)
      in UTC tz ((firstOfMonth + dt - 1) * msPerDay + TimeWithinDay lt))"

text \<open>
  \<^verbatim>\<open>toLocaleDateString('fr-FR', { day: '2-digit', month: '2-digit' })\<close>:
  the local day and month as \<^verbatim>\<open>dd/mm\<close>, without the year.
\<close>

definition twoDigit :: "int \<Rightarrow> string" where
  "twoDigit n = [''0123456789'' ! nat (n div 10 mod 10), ''0123456789'' ! nat (n mod 10)]"

definition dayMonth :: "int \<Rightarrow> int \<Rightarrow> string" where
  "dayMonth tz t =
     (let lt = LocalTime tz t
      in twoDigit (DateFromTime lt) @ ''/'' @ twoDigit (MonthFromTime lt + 1))"

section \<open>Plain objects used as dictionaries\<close>

text \<open>
  A \<^verbatim>\<open>Record<string, V>\<close> built from \<^verbatim>\<open>{}\<close> is the list of its own
  properties in the order of their creation.  \<open>assign\<close> is \<^verbatim>\<open>map[k] = v\<close>:
  an existing property keeps its place, a new one goes to the end.
\<close>

fun assign :: "string \<Rightarrow> 'v \<Rightarrow> (string \<times> 'v) list \<Rightarrow> (string \<times> 'v) list" where
  "assign k v [] = [(k, v)]"
| "assign k v ((k', v') # m) =
     (if k' = k then (k', v) # m else (k', v') # assign k v m)"

text \<open>
  \<^verbatim>\<open>Object.entries\<close> lists the own properties whose key is an array index
  (a canonical decimal numeral up to \<open>2^32 - 2\<close>) first, in ascending numeric
  order, then the other keys in the order of their creation.
\<close>

definition isDigit :: "char \<Rightarrow> bool" where
  "isDigit c = (48 \<le> (of_char c :: nat) \<and> (of_char c :: nat) \<le> 57)"

definition digitsValue :: "string \<Rightarrow> nat" where
  "digitsValue s = foldl (\<lambda>n c. 10 * n + (of_char c - 48)) 0 s"

definition arrayIndex :: "string \<Rightarrow> nat option" where
  "arrayIndex s =
     (if s \<noteq> [] \<and> list_all isDigit s \<and> (s = ''0'' \<or> hd s \<noteq> CHR ''0'')
         \<and> digitsValue s \<le> 4294967294
      then Some (digitsValue s) else None)"

definition entries :: "(string \<times> 'v) list \<Rightarrow> (string \<times> 'v) list" where
  "entries m =
     sort_key (\<lambda>(k, v). case arrayIndex k of None \<Rightarrow> 0 | Some i \<Rightarrow> i)
       (filter (\<lambda>(k, v). arrayIndex k \<noteq> None) m)
     @ filter (\<lambda>(k, v). arrayIndex k = None) m"

text \<open>
  A key that names a member of \<^verbatim>\<open>Object.prototype\<close> reads as a truthy
  inherited value although the object has no such property of its own.
\<close>

definition objectPrototypeKeys :: "string list" where
  "objectPrototypeKeys =
     [''constructor'', ''__defineGetter__'', ''__defineSetter__'', ''hasOwnProperty'',
      ''__lookupGetter__'', ''__lookupSetter__'', ''isPrototypeOf'',
      ''propertyIsEnumerable'', ''toString'', ''valueOf'', ''__proto__'',
      ''toLocaleString'']"

definition inherited :: "string \<Rightarrow> bool" where
  "inherited k = (k \<in> set objectPrototypeKeys)"

section \<open>Dashboard: sales per day\<close>

datatype period = P7j | P30j | P90j | Custom

text \<open>
  A date string \<^verbatim>\<open>YYYY-MM-DD\<close> is represented by the number of the day it
  names, the empty string by \<open>None\<close>.  \<^verbatim>\<open>toISOString().split('T')[0]\<close> is the
  UTC day of a time value, and \<^verbatim>\<open>new Date('YYYY-MM-DD')\<close> is midnight UTC of
  that day.  \<open>now\<close> is the time value of \<^verbatim>\<open>new Date()\<close>.
\<close>

definition getDateRange ::
  "int \<Rightarrow> int \<Rightarrow> period \<Rightarrow> int option \<Rightarrow> int option \<Rightarrow> int option \<times> int option" where
  "getDateRange tz now period customFrom customTo =
     (if period = Custom then (customFrom, customTo)
      else
        let dto = now;
            dfrom =
              (if period = P7j then setDate tz now (getDate tz now - 7)
               else if period = P30j then setDate tz now (getDate tz now - 30)
               else if period = P90j then setDate tz now (getDate tz now - 90)
               else now)
        in (Some (Day dfrom), Some (Day dto)))"

record dayPoint =
  date :: string
  ventes :: rat

text \<open>
  The body of the \<^verbatim>\<open>forEach\<close>: \<^verbatim>\<open>map[day] = (map[day] || 0) + t.amount\<close>.
  A day label is never the name of a member of \<^verbatim>\<open>Object.prototype\<close>, so
  \<^verbatim>\<open>map[day]\<close> reads an own property or \<^verbatim>\<open>undefined\<close>.
\<close>

definition lookupOr0 :: "(string \<times> rat) list \<Rightarrow> string \<Rightarrow> rat" where
  "lookupOr0 m k = (case map_of m k of None \<Rightarrow> 0 | Some v \<Rightarrow> if v = 0 then 0 else v)"

definition dayStep :: "int \<Rightarrow> (string \<times> rat) list \<Rightarrow> transaction \<Rightarrow> (string \<times> rat) list" where
  "dayStep tz m t =
     (let day = dayMonth tz (created_at t)
      in assign day (lookupOr0 m day + amount t) m)"

definition salesMap :: "int \<Rightarrow> transaction list \<Rightarrow> (string \<times> rat) list" where
  "salesMap tz transactions = foldl (dayStep tz) [] (filter isSale transactions)"

text \<open>
  The \<^verbatim>\<open>while (cur <= end)\<close> loop: one point per pass, then
  \<^verbatim>\<open>cur.setDate(cur.getDate() + 1)\<close>.
\<close>

function fillDays :: "int \<Rightarrow> (string \<times> rat) list \<Rightarrow> int \<Rightarrow> int \<Rightarrow> dayPoint list" where
  "fillDays tz m cur end =
     (if cur \<le> end
      then (let key = dayMonth tz cur
            in \<lparr>date = key, ventes = lookupOr0 m key\<rparr>
               # fillDays tz m (setDate tz cur (getDate tz cur + 1)) end)
      else [])"
  by pat_completeness auto
termination
proof (relation "measure (\<lambda>(tz, m, cur, end). nat (end - cur + 1))")
  show "wf (measure (\<lambda>(tz, m, cur, end). nat (end - cur + 1)))"
    by simp
next
  fix tz :: int and m :: "(string \<times> rat) list" and cur :: int and "end" :: int
    and x :: string
  assume "cur \<le> end"
  moreover have "setDate tz cur (getDate tz cur + 1) = cur + msPerDay"
  proof -
    have "(Day (cur + tz) + 1) * msPerDay + (cur + tz) mod msPerDay
          = (cur + tz) div msPerDay * msPerDay + (cur + tz) mod msPerDay + msPerDay"
      by (simp add: Day_def algebra_simps)
    then show ?thesis
      by (simp add: setDate_def getDate_def LocalTime_def UTC_def TimeWithinDay_def Let_def)
  qed
  ultimately show "((tz, m, setDate tz cur (getDate tz cur + 1), end), (tz, m, cur, end))
        \<in> measure (\<lambda>(tz, m, cur, end). nat (end - cur + 1))"
    by (simp add: msPerDay_def)
qed

declare fillDays.simps [simp del]

definition salesByDay ::
  "int \<Rightarrow> int \<Rightarrow> period \<Rightarrow> int option \<Rightarrow> int option \<Rightarrow> transaction list \<Rightarrow> dayPoint list" where
  "salesByDay tz now period customFrom customTo transactions =
     (let m = salesMap tz transactions
      in case getDateRange tz now period customFrom customTo of
           (Some dfrom, Some dto) \<Rightarrow> fillDays tz m (dfrom * msPerDay) (dto * msPerDay)
         | _ \<Rightarrow> map (\<lambda>(date, ventes). \<lparr>date = date, ventes = ventes\<rparr>) (entries m))"

text \<open>
  Vocabulary for the statements below: the day key of a transaction, and the
  point that the loop emits for day number \<open>d\<close>.
\<close>

definition dayKey :: "int \<Rightarrow> transaction \<Rightarrow> string" where
  "dayKey tz t = dayMonth tz (created_at t)"

definition pointOf :: "int \<Rightarrow> (string \<times> rat) list \<Rightarrow> int \<Rightarrow> dayPoint" where
  "pointOf tz m d = \<lparr>date = dayMonth tz (d * msPerDay), ventes = lookupOr0 m (dayMonth tz (d * msPerDay))\<rparr>"

section \<open>Dashboard: sales and expenses per week\<close>

text \<open>
  The Monday of the week of a timestamp, as the source computes it:
  \<^verbatim>\<open>day = d.getDay(); diff = d.getDate() - day + (day === 0 ? -6 : 1);
  monday = new Date(new Date(t.created_at).setDate(diff))\<close>.
\<close>

definition mondayOf :: "int \<Rightarrow> int \<Rightarrow> int" where
  "mondayOf tz created =
     (let day = getDay tz created;
          diff = getDate tz created - day + (if day = 0 then - 6 else 1)
      in setDate tz created diff)"

definition weekKey :: "int \<Rightarrow> transaction \<Rightarrow> string" where
  "weekKey tz t = dayMonth tz (mondayOf tz (created_at t))"

record weekSums =
  sumVentes :: rat
  sumDepenses :: rat

record weekPoint =
  semaine :: string
  ventesSemaine :: rat
  depenses :: rat

text \<open>
  The body of the \<^verbatim>\<open>forEach\<close>: the bucket of the key is created with zeros
  when it is missing, then the amount is added to one of its two sums.  The
  fields \<^verbatim>\<open>ventes\<close> and \<^verbatim>\<open>depenses\<close> (written with an accent in the
  source) of a bucket are \<open>sumVentes\<close> and \<open>sumDepenses\<close> in the dictionary
  and \<open>ventesSemaine\<close> and \<open>depenses\<close> in the series.
\<close>

definition weekStep :: "int \<Rightarrow> (string \<times> weekSums) list \<Rightarrow> transaction \<Rightarrow> (string \<times> weekSums) list" where
  "weekStep tz m t =
     (let key = weekKey tz t;
          v0 = (case map_of m key of None \<Rightarrow> \<lparr>sumVentes = 0, sumDepenses = 0\<rparr> | Some v \<Rightarrow> v);
          v1 = (if ttype t = ''Sale'' then v0\<lparr>sumVentes := sumVentes v0 + amount t\<rparr> else v0);
          v2 = (if ttype t = ''Expense'' \<or> ttype t = ''Withdrawal''
                then v1\<lparr>sumDepenses := sumDepenses v1 + amount t\<rparr> else v1)
      in assign key v2 m)"

text \<open>
  \<^verbatim>\<open>Object.entries(map).sort(([a], [b]) => a.localeCompare(b))
      .map(([semaine, v]) => ({ semaine, ...v }))\<close>.
  The sort is stable.  On the labels \<^verbatim>\<open>dd/mm\<close> (digits around a slash in a
  fixed place) \<^verbatim>\<open>localeCompare\<close> is the lexicographic order of the
  characters, the order of \<open>string\<close> used here.
\<close>

definition salesVsExpenses :: "int \<Rightarrow> transaction list \<Rightarrow> weekPoint list" where
  "salesVsExpenses tz transactions =
     map (\<lambda>(k, v). \<lparr>semaine = k, ventesSemaine = sumVentes v, depenses = sumDepenses v\<rparr>)
       (sort_key fst (entries (foldl (weekStep tz) [] transactions)))"

text \<open>
  Vocabulary for the statements below: the two sums that the dictionary holds
  for a key, 0 when the key is missing.
\<close>

definition ventesOf :: "(string \<times> weekSums) list \<Rightarrow> string \<Rightarrow> rat" where
  "ventesOf m k = (case map_of m k of None \<Rightarrow> 0 | Some v \<Rightarrow> sumVentes v)"

definition depensesOf :: "(string \<times> weekSums) list \<Rightarrow> string \<Rightarrow> rat" where
  "depensesOf m k = (case map_of m k of None \<Rightarrow> 0 | Some v \<Rightarrow> sumDepenses v)"

section \<open>Dashboard: top products\<close>

record productSums =
  sumQuantite :: int
  sumMontant :: rat

record productPoint =
  produit :: string
  quantite :: int
  montant :: rat

text \<open>\<^verbatim>\<open>t.type === 'Sale' && t.product?.name\<close>: the name is there and not empty.\<close>

definition namedSale :: "transaction \<Rightarrow> bool" where
  "namedSale t = (ttype t = ''Sale'' \<and> (case product t of None \<Rightarrow> False | Some n \<Rightarrow> n \<noteq> []))"

text \<open>
  \<^verbatim>\<open>if (!map[name]) map[name] = { quantite: 0, montant: 0 };
  map[name].quantite += t.quantity || 0; map[name].montant += t.amount\<close>.
  For a name inherited from \<^verbatim>\<open>Object.prototype\<close> the test finds a truthy
  value, no property is created and the two additions change the inherited
  object, not the dictionary.
\<close>

definition productStep :: "(string \<times> productSums) list \<Rightarrow> transaction \<Rightarrow> (string \<times> productSums) list" where
  "productStep m t =
     (case product t of
        None \<Rightarrow> m
      | Some name \<Rightarrow>
          (case map_of m name of
             None \<Rightarrow>
               if inherited name then m
               else assign name \<lparr>sumQuantite = 0 + quantityOr0 t, sumMontant = 0 + amount t\<rparr> m
           | Some v \<Rightarrow>
               assign name \<lparr>sumQuantite = sumQuantite v + quantityOr0 t,
                            sumMontant = sumMontant v + amount t\<rparr> m))"

text \<open>
  \<^verbatim>\<open>Object.entries(map).map(([produit, v]) => ({ produit, ...v }))
      .sort((a, b) => b.montant - a.montant).slice(0, 8)\<close>; the sort is stable.
\<close>

definition topProducts :: "transaction list \<Rightarrow> productPoint list" where
  "topProducts transactions =
     take 8
       (sort_key (\<lambda>p. - montant p)
          (map (\<lambda>(k, v). \<lparr>produit = k, quantite = sumQuantite v, montant = sumMontant v\<rparr>)
             (entries (foldl productStep [] (filter namedSale transactions)))))"

text \<open>
  Vocabulary for the statements below: the quantity and the amount summed
  over the transactions that carry the product name \<open>k\<close>, and the sum of two
  such pairs.
\<close>

definition sumsFor :: "string \<Rightarrow> transaction list \<Rightarrow> productSums" where
  "sumsFor k ts =
     \<lparr>sumQuantite = sum_list (map quantityOr0 (filter (\<lambda>t. product t = Some k) ts)),
      sumMontant = sum_list (map amount (filter (\<lambda>t. product t = Some k) ts))\<rparr>"

definition addSums :: "productSums \<Rightarrow> productSums \<Rightarrow> productSums" where
  "addSums v w = \<lparr>sumQuantite = sumQuantite v + sumQuantite w,
                  sumMontant = sumMontant v + sumMontant w\<rparr>"

text \<open>Vocabulary: the ranking before \<^verbatim>\<open>slice(0, 8)\<close>.\<close>

definition rankedProducts :: "transaction list \<Rightarrow> productPoint list" where
  "rankedProducts transactions =
     sort_key (\<lambda>p. - montant p)
       (map (\<lambda>(k, v). \<lparr>produit = k, quantite = sumQuantite v, montant = sumMontant v\<rparr>)
          (entries (foldl productStep [] (filter namedSale transactions))))"

section \<open>Stock levels\<close>

text \<open>
  The class of the stock line of a product card (products page):
  \<^verbatim>\<open>stock === 0 ? 'text-red-600' : stock < 5 ? 'text-orange-600' : 'text-green-600'\<close>,
  and the badge of a row of the low-stock table of the dashboard:
  \<^verbatim>\<open>stock === 0 ? 'bg-red-100 text-red-800' : 'bg-orange-100 text-orange-800'\<close>.
\<close>

definition stockClass :: "int \<Rightarrow> string" where
  "stockClass stock =
     (if stock = 0 then ''text-red-600''
      else if stock < 5 then ''text-orange-600''
      else ''text-green-600'')"

definition lowStockBadge :: "int \<Rightarrow> string" where
  "lowStockBadge stock =
     (if stock = 0 then ''bg-red-100 text-red-800'' else ''bg-orange-100 text-orange-800'')"

text \<open>
  Vocabulary: a product is flagged as low in stock on the products page when
  its stock line does not get the green class.
\<close>

definition flaggedLow :: "int \<Rightarrow> bool" where
  "flaggedLow stock = (stockClass stock \<noteq> ''text-green-600'')"

section \<open>Transaction form\<close>

text \<open>
  In the form every field is a string.  The numbers computed from them are
  JavaScript numbers, here \<open>NaN\<close> or an exact rational; \<open>timesNum\<close> is the
  operator \<^verbatim>\<open>*\<close>.
\<close>

datatype jsnumber = NaN | Num rat

fun timesNum :: "jsnumber \<Rightarrow> jsnumber \<Rightarrow> jsnumber" where
  "timesNum (Num x) (Num y) = Num (x * y)"
| "timesNum _ _ = NaN"

text \<open>
  \<^verbatim>\<open>parseInt(string)\<close> without a radix: leading white space is skipped, a
  sign is read, the prefix \<^verbatim>\<open>0x\<close> or \<^verbatim>\<open>0X\<close> selects radix 16, and the
  longest run of digits of the radix is the value; without a digit the result
  is \<open>NaN\<close>.  White space is the ASCII part of what ECMAScript skips.
\<close>

definition isWhiteSpace :: "char \<Rightarrow> bool" where
  "isWhiteSpace c = (of_char c \<in> set [9, 10, 11, 12, 13, 32 :: nat])"

definition digitValue :: "char \<Rightarrow> nat option" where
  "digitValue c =
     (let n = (of_char c :: nat)
      in if 48 \<le> n \<and> n \<le> 57 then Some (n - 48)
         else if 97 \<le> n \<and> n \<le> 122 then Some (n - 87)
         else if 65 \<le> n \<and> n \<le> 90 then Some (n - 55)
         else None)"

fun leadingDigits :: "nat \<Rightarrow> string \<Rightarrow> nat list" where
  "leadingDigits R [] = []"
| "leadingDigits R (c # cs) =
     (case digitValue c of
        None \<Rightarrow> []
      | Some d \<Rightarrow> if d < R then d # leadingDigits R cs else [])"

definition parseInt :: "string \<Rightarrow> jsnumber" where
  "parseInt input =
     (let s = dropWhile isWhiteSpace input;
          negative = (case s of [] \<Rightarrow> False | c # cs \<Rightarrow> c = CHR ''-'');
          s1 = (case s of [] \<Rightarrow> s
                | c # cs \<Rightarrow> if c = CHR ''+'' \<or> c = CHR ''-'' then cs else s);
          hex = (take 2 s1 = ''0x'' \<or> take 2 s1 = ''0X'');
          R = (if hex then 16 else 10);
          s2 = (if hex then drop 2 s1 else s1);
          ds = leadingDigits R s2;
          mathInt = int (foldl (\<lambda>n d. R * n + d) 0 ds)
      in if ds = [] then NaN
         else Num (of_int (if negative then - mathInt else mathInt)))"

text \<open>The products offered in the select of the form.\<close>

record productRow =
  p_id :: string
  p_name :: string
  selling_price :: rat
  p_stock :: int

record formData =
  f_type :: string
  f_product_id :: string
  f_quantity :: string
  f_amount :: string
  f_comment :: string


definition handleQuantityChange ::
  "(jsnumber \<Rightarrow> string) \<Rightarrow> productRow list \<Rightarrow> formData \<Rightarrow> string \<Rightarrow> formData" where
  "handleQuantityChange toString products formData quantity' =
     (case find (\<lambda>p. p_id p = f_product_id formData) products of
        None \<Rightarrow> formData\<lparr>f_quantity := quantity'\<rparr>
      | Some product' \<Rightarrow>
          if quantity' \<noteq> []
          then (let totalAmount = timesNum (Num (selling_price product')) (parseInt quantity')
                in formData\<lparr>f_quantity := quantity', f_amount := toString totalAmount\<rparr>)
          else formData\<lparr>f_quantity := quantity'\<rparr>)"


text \<open>
  The submit handler either stops with the error message it sets, or calls
  \<^verbatim>\<open>transactionApi.createTransaction(data)\<close>; \<open>Issued data\<close> is that call.
  An optional field of \<^verbatim>\<open>data\<close> that is left out is \<open>None\<close>.  The builtin
  \<^verbatim>\<open>parseFloat\<close> is a parameter.
\<close>

record request =
  r_type :: string
  r_amount :: jsnumber
  r_comment :: "string option"
  r_product_id :: "string option"
  r_quantity :: "jsnumber option"

datatype submitResult = Blocked string | Issued request

definition handleSubmit :: "(string \<Rightarrow> jsnumber) \<Rightarrow> formData \<Rightarrow> submitResult" where
  "handleSubmit parseFloat formData =
     (let data = \<lparr>r_type = f_type formData,
                  r_amount = parseFloat (f_amount formData),
                  r_comment = (if f_comment formData \<noteq> [] then Some (f_comment formData) else None),
                  r_product_id = None,
                  r_quantity = None\<rparr>
      in if f_type formData = ''Sale''
         then (if f_product_id formData = [] \<or> f_quantity formData = []
               then Blocked ''Product and quantity are required for sales''
               else Issued (data\<lparr>r_product_id := Some (f_product_id formData),
                                 r_quantity := Some (parseInt (f_quantity formData))\<rparr>))
         else Issued data)"

text \<open>
  The form element has no \<^verbatim>\<open>noValidate\<close>, so the browser calls the submit
  handler only when every control shown is valid.  The quantity input is
  \<^verbatim>\<open>type="number" min="1" required\<close> (step 1 from the minimum), the amount
  input \<^verbatim>\<open>type="number" step="0.01" min="0" required\<close>, the product select
  \<^verbatim>\<open>required\<close>; product and quantity are shown for the type Sale only.  The
  text of a number input is a valid floating-point number of HTML: an
  optional minus sign, digits, a fraction, or both, and an optional exponent;
  \<open>floatingPointNumber\<close> is its value, \<open>None\<close> for any other text.
\<close>

definition floatingPointNumber :: "string \<Rightarrow> rat option" where
  "floatingPointNumber v =
     (let negative = (case v of [] \<Rightarrow> False | c # cs \<Rightarrow> c = CHR ''-'');
          s1 = (case v of [] \<Rightarrow> [] | c # cs \<Rightarrow> if c = CHR ''-'' then cs else v);
          ip = takeWhile isDigit s1;
          r1 = dropWhile isDigit s1;
          hasDot = (case r1 of [] \<Rightarrow> False | c # cs \<Rightarrow> c = CHR ''.'');
          afterDot = (case r1 of [] \<Rightarrow> [] | c # cs \<Rightarrow> cs);
          fp = (if hasDot then takeWhile isDigit afterDot else []);
          r2 = (if hasDot then dropWhile isDigit afterDot else r1);
          hasExp = (case r2 of [] \<Rightarrow> False | c # cs \<Rightarrow> c = CHR ''e'' \<or> c = CHR ''E'');
          r3 = (case r2 of [] \<Rightarrow> [] | c # cs \<Rightarrow> cs);
          expNegative = (case r3 of [] \<Rightarrow> False | c # cs \<Rightarrow> c = CHR ''-'');
          es = (case r3 of [] \<Rightarrow> []
                | c # cs \<Rightarrow> if c = CHR ''+'' \<or> c = CHR ''-'' then cs else r3);
          mantissa = of_nat (digitsValue ip) + of_nat (digitsValue fp) / 10 ^ length fp;
          scaled = (if hasExp
                    then (if expNegative then mantissa / 10 ^ digitsValue es
                          else mantissa * 10 ^ digitsValue es)
                    else mantissa)
      in if (ip = [] \<and> fp = []) \<or> (hasDot \<and> fp = [])
            \<or> (hasExp \<and> (es = [] \<or> \<not> list_all isDigit es))
            \<or> (\<not> hasExp \<and> r2 \<noteq> [])
         then None
         else Some (if negative then - scaled else scaled))"

definition quantityInputValid :: "string \<Rightarrow> bool" where
  "quantityInputValid v =
     (case floatingPointNumber v of
        None \<Rightarrow> False
      | Some x \<Rightarrow> 1 \<le> x \<and> of_int \<lfloor>x - 1\<rfloor> = x - 1)"

definition amountInputValid :: "string \<Rightarrow> bool" where
  "amountInputValid v =
     (case floatingPointNumber v of
        None \<Rightarrow> False
      | Some x \<Rightarrow> 0 \<le> x \<and> of_int \<lfloor>x * 100\<rfloor> = x * 100)"

definition formValid :: "formData \<Rightarrow> bool" where
  "formValid fd =
     ((if f_type fd = ''Sale''
       then f_product_id fd \<noteq> [] \<and> quantityInputValid (f_quantity fd)
       else True)
      \<and> amountInputValid (f_amount fd))"

text \<open>
  Two conversions between plain decimal numerals and numbers, to run the
  handlers on examples: on a numeral made of an optional minus sign, digits
  and an optional fraction they agree with \<^verbatim>\<open>parseFloat\<close> and with
  \<^verbatim>\<open>toString\<close>.
\<close>

fun fractionValue :: "string \<Rightarrow> rat" where
  "fractionValue [] = 0"
| "fractionValue (c # cs) =
     (case digitValue c of
        None \<Rightarrow> 0
      | Some d \<Rightarrow> if d < 10 then (of_nat d + fractionValue cs) / 10 else 0)"

definition parseDecimal :: "string \<Rightarrow> jsnumber" where
  "parseDecimal input =
     (let negative = (case input of [] \<Rightarrow> False | c # cs \<Rightarrow> c = CHR ''-'');
          s1 = (case input of [] \<Rightarrow> []
                | c # cs \<Rightarrow> if c = CHR ''-'' then cs else input);
          ds = leadingDigits 10 s1;
          rest = drop (length ds) s1;
          whole = of_nat (foldl (\<lambda>n d. 10 * n + d) 0 ds);
          frac = (case rest of [] \<Rightarrow> 0
                  | c # cs \<Rightarrow> if c = CHR ''.'' then fractionValue cs else 0);
          v = whole + frac
      in if ds = [] then NaN else Num (if negative then - v else v))"

fun natDigits :: "nat \<Rightarrow> nat \<Rightarrow> string" where
  "natDigits 0 n = []"
| "natDigits (Suc fuel) n =
     (if n < 10 then [''0123456789'' ! n]
      else natDigits fuel (n div 10) @ [''0123456789'' ! (n mod 10)])"

fun fractionDigits :: "nat \<Rightarrow> rat \<Rightarrow> string" where
  "fractionDigits 0 r = []"
| "fractionDigits (Suc fuel) r =
     (if r = 0 then []
      else (let d = nat \<lfloor>r * 10\<rfloor>
            in (''0123456789'' ! d) # fractionDigits fuel (r * 10 - of_nat d)))"

definition showDecimal :: "jsnumber \<Rightarrow> string" where
  "showDecimal x =
     (case x of
        NaN \<Rightarrow> ''NaN''
      | Num q \<Rightarrow>
          (let a = \<bar>q\<bar>;
               whole = nat \<lfloor>a\<rfloor>;
               frac = a - of_nat whole
           in (if q < 0 then ''-'' else [])
              @ natDigits (Suc whole) whole
              @ (if frac = 0 then [] else ''.'' @ fractionDigits 20 frac)))"

section \<open>Properties of the totals\<close>

lemma foldl_add_quantity:
  "foldl (\<lambda>sum t. sum + quantityOr0 t) a ts = a + sum_list (map quantityOr0 ts)"
  by (induction ts arbitrary: a) simp_all

lemma quantityOr0_cases:
  "quantityOr0 t = (case quantity t of None \<Rightarrow> 0 | Some q \<Rightarrow> q)"
  by (simp add: quantityOr0_def split: option.splits)

text \<open>
  Claim C5.  The number of items sold is the sum of the quantity field over
  the transactions of type Sale only, a missing quantity counting as 0:
  written as a sum over the whole list, every transaction of another type
  contributes 0 whatever its quantity field holds.
\<close>

theorem totalItemsSold_sum:
  "totalItemsSold ts =
     sum_list (map (\<lambda>t. case quantity t of None \<Rightarrow> 0 | Some q \<Rightarrow> q) (filter isSale ts))
   \<and> totalItemsSold ts =
     (\<Sum>t\<leftarrow>ts. if ttype t = ''Sale'' then (case quantity t of None \<Rightarrow> 0 | Some q \<Rightarrow> q) else 0)"
proof -
  have a: "totalItemsSold ts = sum_list (map quantityOr0 (filter isSale ts))"
    by (simp add: totalItemsSold_def foldl_add_quantity)
  have b: "sum_list (map quantityOr0 (filter isSale ts)) =
      (\<Sum>t\<leftarrow>ts. if ttype t = ''Sale'' then quantityOr0 t else 0)"
    by (induction ts) (simp_all add: isSale_def)
  show ?thesis
    using a b unfolding quantityOr0_cases by simp
qed


section \<open>Properties of the daily series\<close>

lemma setDate_next: "setDate tz cur (getDate tz cur + 1) = cur + msPerDay"
proof -
  have "(Day (cur + tz) + 1) * msPerDay + (cur + tz) mod msPerDay
        = (cur + tz) div msPerDay * msPerDay + (cur + tz) mod msPerDay + msPerDay"
    by (simp add: Day_def algebra_simps)
  then show ?thesis
    by (simp add: setDate_def getDate_def LocalTime_def UTC_def TimeWithinDay_def Let_def)
qed

lemma setDate_shift: "setDate tz t (getDate tz t + k) = t + k * msPerDay"
proof -
  have "(Day (t + tz) + k) * msPerDay + (t + tz) mod msPerDay
        = (t + tz) div msPerDay * msPerDay + (t + tz) mod msPerDay + k * msPerDay"
    by (simp add: Day_def algebra_simps)
  then show ?thesis
    by (simp add: setDate_def getDate_def LocalTime_def UTC_def TimeWithinDay_def Let_def)
qed

lemma msPerDay_le [simp]: "a * msPerDay \<le> b * msPerDay \<longleftrightarrow> a \<le> b"
  by (simp add: msPerDay_def)

lemma fillDays_upto:
  "fillDays tz m (a * msPerDay) (b * msPerDay) = map (pointOf tz m) [a..b]"
proof (induction "nat (b - a + 1)" arbitrary: a)
  case 0
  then have "b < a" by simp
  then show ?case
    by (subst fillDays.simps) simp
next
  case (Suc n)
  then have le: "a \<le> b" and n: "n = nat (b - (a + 1) + 1)" by simp_all
  have step: "a * msPerDay + msPerDay = (a + 1) * msPerDay" by (simp add: algebra_simps)
  have "fillDays tz m (a * msPerDay) (b * msPerDay)
        = pointOf tz m a # fillDays tz m ((a + 1) * msPerDay) (b * msPerDay)"
    using le by (subst fillDays.simps) (simp add: setDate_next step pointOf_def Let_def)
  also have "\<dots> = pointOf tz m a # map (pointOf tz m) [a + 1..b]"
    using Suc.hyps(1) [OF n] by simp
  also have "\<dots> = map (pointOf tz m) [a..b]"
    using le by (simp add: upto_rec1)
  finally show ?case .
qed

lemma map_of_assign: "map_of (assign k v m) = (map_of m)(k \<mapsto> v)"
  by (induction m) (auto simp: fun_eq_iff)

lemma lookupOr0_eq: "lookupOr0 m k = (case map_of m k of None \<Rightarrow> 0 | Some v \<Rightarrow> v)"
  by (simp add: lookupOr0_def split: option.splits)

lemma lookupOr0_assign:
  "lookupOr0 (assign k v m) k' = (if k' = k then v else lookupOr0 m k')"
  by (simp add: lookupOr0_eq map_of_assign)

lemma lookupOr0_dayStep:
  "lookupOr0 (dayStep tz m t) k = lookupOr0 m k + (if dayKey tz t = k then amount t else 0)"
  by (auto simp: dayStep_def Let_def lookupOr0_assign dayKey_def)

lemma lookupOr0_foldl_dayStep:
  "lookupOr0 (foldl (dayStep tz) m ts) k
     = lookupOr0 m k + sum_list (map amount (filter (\<lambda>t. dayKey tz t = k) ts))"
  by (induction ts arbitrary: m) (simp_all add: lookupOr0_dayStep)

lemma lookupOr0_salesMap:
  "lookupOr0 (salesMap tz ts) k
     = sum_list (map amount (filter (\<lambda>t. isSale t \<and> dayKey tz t = k) ts))"
proof -
  have "lookupOr0 ([] :: (string \<times> rat) list) k = 0"
    by (simp add: lookupOr0_def)
  then show ?thesis
    unfolding salesMap_def lookupOr0_foldl_dayStep
    by (simp add: conj_commute)
qed

lemma getDateRange_preset:
  "period \<noteq> Custom \<Longrightarrow>
   getDateRange tz now period customFrom customTo
     = (Some (Day now - (case period of P7j \<Rightarrow> 7 | P30j \<Rightarrow> 30 | P90j \<Rightarrow> 90 | Custom \<Rightarrow> 0)),
        Some (Day now))"
proof -
  have "\<And>k. setDate tz now (getDate tz now - k) = now + (- k) * msPerDay"
    using setDate_shift [of tz now] by (metis diff_conv_add_uminus)
  moreover have "\<And>k. Day (now + (- k) * msPerDay) = Day now - k"
    by (simp add: Day_def msPerDay_def)
  ultimately have "\<And>k. Day (setDate tz now (getDate tz now - k)) = Day now - k"
    by (simp only:)
  then show "period \<noteq> Custom \<Longrightarrow> ?thesis"
    by (cases period) (simp_all add: getDateRange_def Let_def)
qed

lemma salesByDay_range:
  "getDateRange tz now period customFrom customTo = (Some d0, Some d1) \<Longrightarrow>
   salesByDay tz now period customFrom customTo ts = map (pointOf tz (salesMap tz ts)) [d0..d1]"
  by (simp add: salesByDay_def fillDays_upto)

lemma getDateRange_custom:
  "getDateRange tz now Custom customFrom customTo = (customFrom, customTo)"
  by (simp add: getDateRange_def)

lemma salesByDay_length:
  "getDateRange tz now period customFrom customTo = (Some d0, Some d1) \<Longrightarrow>
   length (salesByDay tz now period customFrom customTo ts) = nat (d1 - d0 + 1)"
  by (simp add: salesByDay_range)

text \<open>
  What the loop computes over a range: one point per day number from \<open>d0\<close>
  to \<open>d1\<close>, labelled with the local day and month of midnight UTC of that
  day, and valued with the sum of the amounts of all Sale transactions whose
  own label is the same.
\<close>

lemma salesByDay_points:
  "getDateRange tz now period customFrom customTo = (Some d0, Some d1) \<Longrightarrow>
   salesByDay tz now period customFrom customTo ts
     = map (\<lambda>d. \<lparr>date = dayMonth tz (d * msPerDay),
                   ventes = sum_list (map amount
                     (filter (\<lambda>t. isSale t \<and> dayKey tz t = dayMonth tz (d * msPerDay)) ts))\<rparr>)
         [d0..d1]"
  by (simp add: salesByDay_range pointOf_def lookupOr0_salesMap)

lemma upto_nth_int: "0 \<le> k \<Longrightarrow> a + k \<le> b \<Longrightarrow> [a..b] ! nat k = a + k"
  using nth_upto [of a "nat k" b] by simp

text \<open>
  Claim C1.  Over a range from day \<open>D0\<close> to day \<open>D1\<close> the series is to hold one
  point per calendar day, valued with the sales of that very day and with 0
  on a day without sales.  The dictionary is keyed by the label \<^verbatim>\<open>dd/mm\<close>,
  which has no year, so over a range longer than a year a day also receives
  the sales of the same day and month of the other year.  With the range
  2023-01-05 to 2024-01-05 (UTC) and one sale of 10 on 2023-01-05 at noon, the
  series has 366 points and its last point, for 2024-01-05, carries 10,
  although no sale of the list falls on 2024-01-05.
\<close>

theorem salesByDay_year_collision:
  "length (salesByDay 0 0 Custom (Some 19362) (Some 19727)
      [\<lparr>tid = ''t1'', ttype = ''Sale'', product = Some ''Lamp'', quantity = Some 1,
        amount = 10, created_at = 19362 * 86400000 + 43200000\<rparr>]) = 366
   \<and> salesByDay 0 0 Custom (Some 19362) (Some 19727)
      [\<lparr>tid = ''t1'', ttype = ''Sale'', product = Some ''Lamp'', quantity = Some 1,
        amount = 10, created_at = 19362 * 86400000 + 43200000\<rparr>] ! 365
     = \<lparr>date = ''05/01'', ventes = 10\<rparr>
   \<and> civil 19727 = (2024, 1, 5)
   \<and> civil (Day (LocalTime 0 (19362 * 86400000 + 43200000))) = (2023, 1, 5)
   \<and> filter (\<lambda>t. isSale t \<and> Day (LocalTime 0 (created_at t)) = 19727)
      [\<lparr>tid = ''t1'', ttype = ''Sale'', product = Some ''Lamp'', quantity = Some 1,
        amount = 10, created_at = 19362 * 86400000 + 43200000\<rparr>] = []"
proof -
  let ?ts = "[\<lparr>tid = ''t1'', ttype = ''Sale'', product = Some ''Lamp'', quantity = Some 1,
        amount = 10, created_at = 19362 * 86400000 + 43200000\<rparr>]"
  have k: "dayMonth 0 (19727 * msPerDay) = ''05/01''"
    by code_simp
  have v: "lookupOr0 (salesMap 0 ?ts) ''05/01'' = 10"
    by code_simp
  have n: "[19362..19727] ! nat 365 = (19362 + 365 :: int)"
    by (rule upto_nth_int) simp_all
  have p: "salesByDay 0 0 Custom (Some 19362) (Some 19727) ?ts ! 365
      = pointOf 0 (salesMap 0 ?ts) 19727"
    using n by (simp add: salesByDay_range [OF getDateRange_custom])
  have c1: "civil 19727 = (2024, 1, 5)"
    by code_simp
  have c2: "civil (Day (LocalTime 0 (19362 * 86400000 + 43200000))) = (2023, 1, 5)"
    by code_simp
  have c3: "filter (\<lambda>t. isSale t \<and> Day (LocalTime 0 (created_at t)) = 19727) ?ts = []"
    by code_simp
  show ?thesis
    using p k v c1 c2 c3 by (simp add: salesByDay_length [OF getDateRange_custom] pointOf_def)
qed

text \<open>
  The labels of the range also depend on the zone: the bounds are read as
  midnight UTC and labelled in local time.  Five hours west of UTC the range
  2024-01-05 to 2024-01-05 gives the single point of 2024-01-04, and a sale of
  2024-01-05 (local time) is not shown.
\<close>

lemma salesByDay_west_of_utc:
  "salesByDay (- 18000000) 0 Custom (Some 19727) (Some 19727)
     [\<lparr>tid = ''t1'', ttype = ''Sale'', product = Some ''Lamp'', quantity = Some 1,
       amount = 10, created_at = 19727 * 86400000 + 43200000\<rparr>]
   = [\<lparr>date = ''04/01'', ventes = 0\<rparr>]
   \<and> dayMonth (- 18000000) (19727 * 86400000 + 43200000) = ''05/01''"
  by code_simp

text \<open>
  Claim C6.  When the range is inverted (\<open>D0\<close> after \<open>D1\<close>) the loop body never
  runs and the series is the empty list, whatever the transactions are.
\<close>

theorem salesByDay_inverted_range:
  assumes "getDateRange tz now period customFrom customTo = (Some d0, Some d1)"
    and "d1 < d0"
  shows "salesByDay tz now period customFrom customTo ts = []"
  using assms by (simp add: salesByDay_range)

text \<open>The range 2024-01-05 to 2024-01-01 with a sale on 2024-01-02.\<close>

theorem salesByDay_inverted_range_witness:
  "salesByDay 0 0 Custom (Some 19727) (Some 19723)
     [\<lparr>tid = ''t1'', ttype = ''Sale'', product = Some ''Lamp'', quantity = Some 1,
       amount = 10, created_at = 19724 * 86400000\<rparr>] = []"
  using salesByDay_inverted_range [OF getDateRange_custom, of 19723 19727] by simp

section \<open>The daily series without a range\<close>

lemma isDigit_slash: "\<not> isDigit (CHR ''/'')"
  by (simp add: isDigit_def)

lemma arrayIndex_dayMonth: "arrayIndex (dayMonth tz t) = None"
  by (simp add: arrayIndex_def dayMonth_def Let_def isDigit_slash)

lemma entries_no_index:
  assumes "\<And>k. k \<in> set (map fst m) \<Longrightarrow> arrayIndex k = None"
  shows "entries m = m"
proof -
  have a: "filter (\<lambda>(k, v). arrayIndex k = None) m = m"
    using assms by (intro filter_True) force
  have b: "filter (\<lambda>(k, v). arrayIndex k \<noteq> None) m = []"
    using assms by (intro filter_False) force
  show ?thesis
    unfolding entries_def a b by simp
qed

lemma map_fst_assign:
  "map fst (assign k v m) = (if k \<in> set (map fst m) then map fst m else map fst m @ [k])"
proof (induction m)
  case Nil
  show ?case by simp
next
  case (Cons p m)
  obtain k' v' where p: "p = (k', v')" by (cases p)
  show ?case
    using Cons.IH by (cases "k' = k") (simp_all add: p)
qed

lemma foldl_first_seen:
  "distinct ks \<Longrightarrow>
   foldl (\<lambda>ks k. if k \<in> set ks then ks else ks @ [k]) ks xs = rev (remdups (rev (ks @ xs)))"
proof (induction xs rule: rev_induct)
  case Nil
  then show ?case by (simp add: distinct_remdups_id)
next
  case (snoc x xs)
  then show ?case by auto
qed








section \<open>Properties of the weekly series\<close>

lemma getDay_range: "0 \<le> getDay tz t \<and> getDay tz t < 7"
  by (simp add: getDay_def WeekDay_def)

lemma mondayOf_eq: "mondayOf tz c = c - ((getDay tz c + 6) mod 7) * msPerDay"
proof -
  let ?day = "getDay tz c"
  let ?k = "- ?day + (if ?day = 0 then - 6 else 1)"
  have r: "0 \<le> ?day \<and> ?day < 7" by (rule getDay_range)
  have "mondayOf tz c = setDate tz c (getDate tz c + ?k)"
    by (simp add: mondayOf_def Let_def algebra_simps)
  also have "\<dots> = c + ?k * msPerDay"
    by (rule setDate_shift)
  also have "?k = - ((?day + 6) mod 7)"
    using r by presburger
  finally show ?thesis by simp
qed

lemma Day_shift: "Day (t + k * msPerDay) = Day t + k"
  by (simp add: Day_def msPerDay_def)

lemma localDay_mondayOf:
  "Day (LocalTime tz (mondayOf tz c)) = Day (LocalTime tz c) - (getDay tz c + 6) mod 7"
proof -
  have "LocalTime tz (mondayOf tz c) = LocalTime tz c + (- ((getDay tz c + 6) mod 7)) * msPerDay"
    by (simp add: mondayOf_eq LocalTime_def)
  then show ?thesis
    by (simp only: Day_shift)
qed

lemma getDay_mondayOf: "getDay tz (mondayOf tz c) = 1"
proof -
  have "getDay tz (mondayOf tz c) = (Day (LocalTime tz c) - (getDay tz c + 6) mod 7 + 4) mod 7"
    by (simp add: getDay_def WeekDay_def localDay_mondayOf)
  also have "\<dots> = 1"
    unfolding getDay_def WeekDay_def by presburger
  finally show ?thesis .
qed

lemma timeOfDay_mondayOf:
  "TimeWithinDay (LocalTime tz (mondayOf tz c)) = TimeWithinDay (LocalTime tz c)"
proof -
  have "LocalTime tz (mondayOf tz c) = LocalTime tz c + (- ((getDay tz c + 6) mod 7)) * msPerDay"
    by (simp add: mondayOf_eq LocalTime_def)
  moreover have "\<And>t k. TimeWithinDay (t + k * msPerDay) = TimeWithinDay t"
    by (simp add: TimeWithinDay_def)
  ultimately show ?thesis
    by (simp only:)
qed

lemma keys_weekStep:
  "map fst (weekStep tz m t)
     = (if weekKey tz t \<in> set (map fst m) then map fst m else map fst m @ [weekKey tz t])"
  by (simp add: weekStep_def Let_def map_fst_assign)

lemma keys_foldl_weekStep:
  "map fst (foldl (weekStep tz) m ts)
     = foldl (\<lambda>ks k. if k \<in> set ks then ks else ks @ [k]) (map fst m) (map (weekKey tz) ts)"
  by (induction ts arbitrary: m) (simp_all add: keys_weekStep)

lemma keys_weekMap:
  "map fst (foldl (weekStep tz) [] ts) = rev (remdups (rev (map (weekKey tz) ts)))"
  by (simp add: keys_foldl_weekStep foldl_first_seen)

lemma ventesOf_weekStep:
  "ventesOf (weekStep tz m t) k
     = ventesOf m k + (if ttype t = ''Sale'' \<and> weekKey tz t = k then amount t else 0)"
  by (simp add: weekStep_def Let_def ventesOf_def map_of_assign split: option.splits)

lemma depensesOf_weekStep:
  "depensesOf (weekStep tz m t) k
     = depensesOf m k
       + (if (ttype t = ''Expense'' \<or> ttype t = ''Withdrawal'') \<and> weekKey tz t = k
          then amount t else 0)"
  by (simp add: weekStep_def Let_def depensesOf_def map_of_assign split: option.splits)

lemma ventesOf_foldl:
  "ventesOf (foldl (weekStep tz) m ts) k
     = ventesOf m k
       + sum_list (map amount (filter (\<lambda>t. ttype t = ''Sale'' \<and> weekKey tz t = k) ts))"
  by (induction ts arbitrary: m) (simp_all add: ventesOf_weekStep)

lemma depensesOf_foldl:
  "depensesOf (foldl (weekStep tz) m ts) k
     = depensesOf m k
       + sum_list (map amount (filter
           (\<lambda>t. (ttype t = ''Expense'' \<or> ttype t = ''Withdrawal'') \<and> weekKey tz t = k) ts))"
  by (induction ts arbitrary: m) (simp_all add: depensesOf_weekStep)

lemma arrayIndex_weekKey: "arrayIndex (weekKey tz t) = None"
  by (simp add: weekKey_def arrayIndex_dayMonth)

lemma entries_weekMap:
  "entries (foldl (weekStep tz) [] ts) = foldl (weekStep tz) [] ts"
proof (rule entries_no_index)
  fix k assume "k \<in> set (map fst (foldl (weekStep tz) [] ts))"
  then have "k \<in> set (map (weekKey tz) ts)"
    by (simp add: keys_weekMap)
  then show "arrayIndex k = None"
    by (auto simp: arrayIndex_weekKey)
qed

lemma map_insort_key: "map f (insort_key f x xs) = insort (f x) (map f xs)"
  by (induction xs) auto

lemma map_sort_key: "map f (sort_key f xs) = sort (map f xs)"
  by (induction xs) (simp_all add: map_insort_key)

lemma salesVsExpenses_keys:
  "map semaine (salesVsExpenses tz ts) = sort (rev (remdups (rev (map (weekKey tz) ts))))"
proof -
  have "map semaine (salesVsExpenses tz ts)
      = map fst (sort_key fst (foldl (weekStep tz) [] ts))"
    by (simp add: salesVsExpenses_def entries_weekMap comp_def case_prod_unfold)
  also have "\<dots> = sort (map fst (foldl (weekStep tz) [] ts))"
    by (rule map_sort_key)
  finally show ?thesis
    by (simp add: keys_weekMap)
qed

lemma distinct_keys_weekMap: "distinct (map fst (foldl (weekStep tz) [] ts))"
  by (simp add: keys_weekMap)

lemma set_keys_weekMap: "set (map fst (foldl (weekStep tz) [] ts)) = weekKey tz ` set ts"
  by (simp add: keys_weekMap)

lemma salesVsExpenses_member:
  assumes "b \<in> set (salesVsExpenses tz ts)"
  shows "semaine b \<in> weekKey tz ` set ts
       \<and> ventesSemaine b = ventesOf (foldl (weekStep tz) [] ts) (semaine b)
       \<and> depenses b = depensesOf (foldl (weekStep tz) [] ts) (semaine b)"
proof -
  let ?M = "foldl (weekStep tz) [] ts"
  from assms obtain k v where kv: "(k, v) \<in> set ?M"
    and b: "b = \<lparr>semaine = k, ventesSemaine = sumVentes v, depenses = sumDepenses v\<rparr>"
    by (auto simp: salesVsExpenses_def entries_weekMap)
  from kv have "map_of ?M k = Some v"
    using distinct_keys_weekMap [of tz ts] by simp
  moreover from kv have "k \<in> set (map fst ?M)"
    by force
  then have "k \<in> weekKey tz ` set ts"
    by (simp only: set_keys_weekMap)
  ultimately show ?thesis
    by (simp add: b ventesOf_def depensesOf_def)
qed

lemma ventesOf_weekMap:
  "ventesOf (foldl (weekStep tz) [] ts) k
     = sum_list (map amount (filter (\<lambda>t. ttype t = ''Sale'' \<and> weekKey tz t = k) ts))"
  by (simp add: ventesOf_foldl) (simp add: ventesOf_def)

lemma depensesOf_weekMap:
  "depensesOf (foldl (weekStep tz) [] ts) k
     = sum_list (map amount (filter
         (\<lambda>t. (ttype t = ''Expense'' \<or> ttype t = ''Withdrawal'') \<and> weekKey tz t = k) ts))"
  by (simp add: depensesOf_foldl) (simp add: depensesOf_def)

text \<open>
  What the weekly series holds, label by label.  Every bucket is keyed by the
  label \<^verbatim>\<open>dd/mm\<close> of the Monday that begins the week of a transaction of
  the list, and every transaction has its bucket.  That Monday is a Monday
  (\<open>getDay\<close> is 1), lies 0 to 6 local days before the transaction, and for a
  transaction of a Sunday it is the Monday six days before.  The two sums of
  a bucket run over the transactions whose week has the label of the bucket.
\<close>

lemma salesVsExpenses_buckets:
  "(\<forall>b \<in> set (salesVsExpenses tz ts).
      (\<exists>t \<in> set ts. semaine b = weekKey tz t)
      \<and> ventesSemaine b
          = sum_list (map amount
              (filter (\<lambda>t. ttype t = ''Sale'' \<and> weekKey tz t = semaine b) ts))
      \<and> depenses b
          = sum_list (map amount
              (filter (\<lambda>t. (ttype t = ''Expense'' \<or> ttype t = ''Withdrawal'')
                            \<and> weekKey tz t = semaine b) ts)))
   \<and> (\<forall>t \<in> set ts.
        (\<exists>b \<in> set (salesVsExpenses tz ts). semaine b = weekKey tz t)
        \<and> weekKey tz t = dayMonth tz (mondayOf tz (created_at t))
        \<and> getDay tz (mondayOf tz (created_at t)) = 1
        \<and> Day (LocalTime tz (mondayOf tz (created_at t)))
            = Day (LocalTime tz (created_at t)) - (getDay tz (created_at t) + 6) mod 7
        \<and> (getDay tz (created_at t) = 0 \<longrightarrow>
             Day (LocalTime tz (mondayOf tz (created_at t)))
               = Day (LocalTime tz (created_at t)) - 6))"
proof (intro conjI ballI)
  fix b assume b: "b \<in> set (salesVsExpenses tz ts)"
  from salesVsExpenses_member [OF b]
  show "\<exists>t \<in> set ts. semaine b = weekKey tz t"
    by auto
  from salesVsExpenses_member [OF b]
  show "ventesSemaine b
          = sum_list (map amount
              (filter (\<lambda>t. ttype t = ''Sale'' \<and> weekKey tz t = semaine b) ts))"
    by (simp add: ventesOf_weekMap)
  from salesVsExpenses_member [OF b]
  show "depenses b
          = sum_list (map amount
              (filter (\<lambda>t. (ttype t = ''Expense'' \<or> ttype t = ''Withdrawal'')
                            \<and> weekKey tz t = semaine b) ts))"
    by (simp add: depensesOf_weekMap)
next
  fix t assume t: "t \<in> set ts"
  have "weekKey tz t \<in> set (map semaine (salesVsExpenses tz ts))"
    using t by (simp add: salesVsExpenses_keys)
  then show "\<exists>b \<in> set (salesVsExpenses tz ts). semaine b = weekKey tz t"
    by auto
  show "weekKey tz t = dayMonth tz (mondayOf tz (created_at t))"
    by (simp add: weekKey_def)
  show "getDay tz (mondayOf tz (created_at t)) = 1"
    by (rule getDay_mondayOf)
  show "Day (LocalTime tz (mondayOf tz (created_at t)))
            = Day (LocalTime tz (created_at t)) - (getDay tz (created_at t) + 6) mod 7"
    by (rule localDay_mondayOf)
  show "getDay tz (created_at t) = 0 \<longrightarrow>
             Day (LocalTime tz (mondayOf tz (created_at t)))
               = Day (LocalTime tz (created_at t)) - 6"
    by (simp add: localDay_mondayOf)
qed


text \<open>
  A sale on Sunday 2024-01-07, an expense on Wednesday 2024-01-03, a withdrawal
  on Monday 2024-01-08 and a sale on Tuesday 2024-01-09 (UTC): the Sunday goes
  to the week of Monday 2024-01-01.
\<close>

lemma salesVsExpenses_buckets_example:
  "salesVsExpenses 0
     [\<lparr>tid = ''t1'', ttype = ''Sale'', product = Some ''Lamp'', quantity = Some 1,
       amount = 10, created_at = 19729 * 86400000\<rparr>,
      \<lparr>tid = ''t2'', ttype = ''Expense'', product = None, quantity = None,
       amount = 4, created_at = 19725 * 86400000\<rparr>,
      \<lparr>tid = ''t3'', ttype = ''Withdrawal'', product = None, quantity = None,
       amount = 3, created_at = 19730 * 86400000\<rparr>,
      \<lparr>tid = ''t4'', ttype = ''Sale'', product = Some ''Cable'', quantity = Some 2,
       amount = 7, created_at = 19731 * 86400000\<rparr>]
   = [\<lparr>semaine = ''01/01'', ventesSemaine = 10, depenses = 4\<rparr>,
      \<lparr>semaine = ''08/01'', ventesSemaine = 7, depenses = 3\<rparr>]
   \<and> sum_list (map amount (filter (\<lambda>t. ttype t = ''Sale'' \<and> weekKey 0 t = ''01/01'')
     [\<lparr>tid = ''t1'', ttype = ''Sale'', product = Some ''Lamp'', quantity = Some 1,
       amount = 10, created_at = 19729 * 86400000\<rparr>,
      \<lparr>tid = ''t2'', ttype = ''Expense'', product = None, quantity = None,
       amount = 4, created_at = 19725 * 86400000\<rparr>,
      \<lparr>tid = ''t3'', ttype = ''Withdrawal'', product = None, quantity = None,
       amount = 3, created_at = 19730 * 86400000\<rparr>,
      \<lparr>tid = ''t4'', ttype = ''Sale'', product = Some ''Cable'', quantity = Some 2,
       amount = 7, created_at = 19731 * 86400000\<rparr>])) = 10
   \<and> getDay 0 (19729 * 86400000) = 0
   \<and> getDay 0 (mondayOf 0 (19729 * 86400000)) = 1
   \<and> Day (LocalTime 0 (mondayOf 0 (19729 * 86400000))) = 19723"
proof -
  let ?t1 = "\<lparr>tid = ''t1'', ttype = ''Sale'', product = Some ''Lamp'', quantity = Some 1,
       amount = 10, created_at = 19729 * 86400000\<rparr>"
  let ?ts = "[?t1,
      \<lparr>tid = ''t2'', ttype = ''Expense'', product = None, quantity = None,
       amount = 4, created_at = 19725 * 86400000\<rparr>,
      \<lparr>tid = ''t3'', ttype = ''Withdrawal'', product = None, quantity = None,
       amount = 3, created_at = 19730 * 86400000\<rparr>,
      \<lparr>tid = ''t4'', ttype = ''Sale'', product = Some ''Cable'', quantity = Some 2,
       amount = 7, created_at = 19731 * 86400000\<rparr>]"
  let ?b1 = "\<lparr>semaine = ''01/01'', ventesSemaine = 10, depenses = 4\<rparr>"
  have e: "salesVsExpenses 0 ?ts
      = [?b1, \<lparr>semaine = ''08/01'', ventesSemaine = 7, depenses = 3\<rparr>]"
    by code_simp
  have sunday: "getDay 0 (19729 * 86400000) = 0"
    by code_simp
  have day: "Day (LocalTime 0 (19729 * 86400000)) = 19729"
    by code_simp
  note inst = salesVsExpenses_buckets [of 0 ?ts]
  have b1: "?b1 \<in> set (salesVsExpenses 0 ?ts)"
    by (simp only: e) simp
  from inst b1 have "ventesSemaine ?b1
      = sum_list (map amount (filter (\<lambda>t. ttype t = ''Sale'' \<and> weekKey 0 t = semaine ?b1) ?ts))"
    by blast
  then have v: "sum_list (map amount (filter (\<lambda>t. ttype t = ''Sale'' \<and> weekKey 0 t = ''01/01'') ?ts)) = 10"
    by simp
  have "?t1 \<in> set ?ts" by simp
  with inst have m: "getDay 0 (mondayOf 0 (created_at ?t1)) = 1
      \<and> (getDay 0 (created_at ?t1) = 0 \<longrightarrow>
             Day (LocalTime 0 (mondayOf 0 (created_at ?t1)))
               = Day (LocalTime 0 (created_at ?t1)) - 6)"
    by blast
  from m sunday day have "getDay 0 (mondayOf 0 (19729 * 86400000)) = 1
      \<and> Day (LocalTime 0 (mondayOf 0 (19729 * 86400000))) = 19723"
    by simp
  with e v sunday show ?thesis
    by simp
qed



text \<open>
  Claim C2.  Each bucket is to hold the sums of the transactions of one week,
  the week of its Monday.  The label of a bucket has no year, so two weeks
  whose Mondays share day and month fall into one bucket.  A sale of 10 on
  Wednesday 2019-03-06 and a sale of 5 on Wednesday 2024-03-06 (UTC) give the
  single bucket \<^verbatim>\<open>04/03\<close> with 15, while their Mondays are 2019-03-04 and
  2024-03-04: no week has sales of 15.
\<close>

theorem salesVsExpenses_year_collision:
  "salesVsExpenses 0
     [\<lparr>tid = ''t1'', ttype = ''Sale'', product = Some ''Lamp'', quantity = Some 1,
       amount = 10, created_at = 17961 * 86400000 + 43200000\<rparr>,
      \<lparr>tid = ''t2'', ttype = ''Sale'', product = Some ''Lamp'', quantity = Some 1,
       amount = 5, created_at = 19788 * 86400000 + 43200000\<rparr>]
   = [\<lparr>semaine = ''04/03'', ventesSemaine = 15, depenses = 0\<rparr>]
   \<and> civil (Day (LocalTime 0 (mondayOf 0 (17961 * 86400000 + 43200000)))) = (2019, 3, 4)
   \<and> civil (Day (LocalTime 0 (mondayOf 0 (19788 * 86400000 + 43200000)))) = (2024, 3, 4)"
  by code_simp

section \<open>Properties of the product ranking\<close>

lemma set_entries: "set (entries m) = set m"
  by (auto simp: entries_def)

lemma distinct_entries:
  assumes "distinct (map fst m)"
  shows "distinct (map fst (entries m))"
proof -
  from assms have d: "distinct m" and i: "inj_on fst (set m)"
    by (simp_all add: distinct_map)
  have "distinct (entries m)"
    using d by (auto simp: entries_def)
  moreover have "inj_on fst (set (entries m))"
    using i by (simp add: set_entries)
  ultimately show ?thesis
    by (simp add: distinct_map)
qed

lemma distinct_map_sort_key:
  "distinct (map h (sort_key g ys)) \<longleftrightarrow> distinct (map h ys)"
  by (simp add: distinct_map)

lemma map_of_productStep:
  "map_of (productStep m t) k =
     (if product t = Some k
      then (case map_of m k of
              None \<Rightarrow> if inherited k then None
                      else Some \<lparr>sumQuantite = quantityOr0 t, sumMontant = amount t\<rparr>
            | Some v \<Rightarrow> Some \<lparr>sumQuantite = sumQuantite v + quantityOr0 t,
                               sumMontant = sumMontant v + amount t\<rparr>)
      else map_of m k)"
  by (cases "product t")
     (auto simp: productStep_def map_of_assign split: option.splits)

lemma map_of_foldl_productStep:
  "map_of (foldl productStep m ts) k =
     (case map_of m k of
        Some v \<Rightarrow> Some (addSums v (sumsFor k ts))
      | None \<Rightarrow>
          if inherited k \<or> filter (\<lambda>t. product t = Some k) ts = [] then None
          else Some (sumsFor k ts))"
proof (induction ts arbitrary: m)
  case Nil
  show ?case
    by (cases "map_of m k") (simp_all add: addSums_def sumsFor_def)
next
  case (Cons t ts)
  show ?case
  proof (cases "product t = Some k")
    case False
    then show ?thesis
      by (simp add: Cons.IH map_of_productStep sumsFor_def split: option.splits)
  next
    case True
    show ?thesis
    proof (cases "map_of m k")
      case (Some v)
      then show ?thesis
        using True
        by (simp add: Cons.IH map_of_productStep sumsFor_def addSums_def algebra_simps)
    next
      case None
      then show ?thesis
        using True
        by (simp add: Cons.IH map_of_productStep sumsFor_def addSums_def algebra_simps)
    qed
  qed
qed

lemma distinct_productStep:
  "distinct (map fst m) \<Longrightarrow> distinct (map fst (productStep m t))"
  by (cases "product t")
     (auto simp: productStep_def map_fst_assign split: option.splits)

lemma distinct_foldl_productStep:
  "distinct (map fst m) \<Longrightarrow> distinct (map fst (foldl productStep m ts))"
  by (induction ts arbitrary: m) (simp_all add: distinct_productStep)

lemma productMap_member:
  assumes "(k, v) \<in> set (foldl productStep [] ts)"
  shows "v = sumsFor k ts \<and> filter (\<lambda>t. product t = Some k) ts \<noteq> []"
proof -
  have "distinct (map fst (foldl productStep [] ts))"
    by (rule distinct_foldl_productStep) simp
  with assms have "map_of (foldl productStep [] ts) k = Some v"
    by simp
  then show ?thesis
    by (simp add: map_of_foldl_productStep split: if_splits)
qed

lemma filter_namedSale_name:
  "k \<noteq> [] \<Longrightarrow>
   filter (\<lambda>t. product t = Some k) (filter namedSale ts)
     = filter (\<lambda>t. ttype t = ''Sale'' \<and> product t = Some k) ts"
  by (induction ts) (auto simp: namedSale_def)

lemma namedSale_key_nonempty:
  assumes "filter (\<lambda>t. product t = Some k) (filter namedSale ts) \<noteq> []"
  shows "k \<noteq> []"
proof -
  from assms obtain t where "t \<in> set ts" "namedSale t" "product t = Some k"
    by (auto simp: filter_empty_conv)
  then show ?thesis
    by (auto simp: namedSale_def)
qed

lemma topProducts_member:
  assumes "p \<in> set (topProducts ts)"
  shows "produit p \<noteq> []
       \<and> filter (\<lambda>t. ttype t = ''Sale'' \<and> product t = Some (produit p)) ts \<noteq> []
       \<and> quantite p = sum_list (map quantityOr0
           (filter (\<lambda>t. ttype t = ''Sale'' \<and> product t = Some (produit p)) ts))
       \<and> montant p = sum_list (map amount
           (filter (\<lambda>t. ttype t = ''Sale'' \<and> product t = Some (produit p)) ts))"
proof -
  let ?M = "foldl productStep [] (filter namedSale ts)"
  from assms have "p \<in> set (sort_key (\<lambda>p. - montant p)
      (map (\<lambda>(k, v). \<lparr>produit = k, quantite = sumQuantite v, montant = sumMontant v\<rparr>)
         (entries ?M)))"
    unfolding topProducts_def by (rule in_set_takeD)
  then obtain k v where kv: "(k, v) \<in> set ?M"
    and p: "p = \<lparr>produit = k, quantite = sumQuantite v, montant = sumMontant v\<rparr>"
    by (auto simp: set_entries)
  from productMap_member [OF kv]
  have v: "v = sumsFor k (filter namedSale ts)"
    and ne: "filter (\<lambda>t. product t = Some k) (filter namedSale ts) \<noteq> []"
    by simp_all
  from ne have k: "k \<noteq> []"
    by (rule namedSale_key_nonempty)
  show ?thesis
    using ne unfolding p v sumsFor_def filter_namedSale_name [OF k]
    by (simp add: k)
qed

text \<open>
  What every entry of the ranking satisfies.  The ranking has at most 8
  entries, is sorted by non-increasing revenue and lists no product name
  twice.  Every entry bears a non-empty product name that some Sale
  transaction of the list carries, its quantity is the sum of the quantities
  (a missing one counting as 0) and its revenue the sum of the amounts of the
  Sale transactions with that product name.
\<close>

lemma topProducts_ranking:
  "length (topProducts ts) \<le> 8
   \<and> sorted_wrt (\<lambda>a b. montant a \<ge> montant b) (topProducts ts)
   \<and> distinct (map produit (topProducts ts))
   \<and> (\<forall>p \<in> set (topProducts ts).
        produit p \<noteq> []
        \<and> (\<exists>t \<in> set ts. ttype t = ''Sale'' \<and> product t = Some (produit p))
        \<and> quantite p = sum_list (map quantityOr0
            (filter (\<lambda>t. ttype t = ''Sale'' \<and> product t = Some (produit p)) ts))
        \<and> montant p = sum_list (map amount
            (filter (\<lambda>t. ttype t = ''Sale'' \<and> product t = Some (produit p)) ts)))"
proof (intro conjI ballI)
  let ?M = "foldl productStep [] (filter namedSale ts)"
  let ?f = "\<lambda>(k, v). \<lparr>produit = k, quantite = sumQuantite v, montant = sumMontant v\<rparr>"
  show "length (topProducts ts) \<le> 8"
    by (simp add: topProducts_def)
  have "sorted (map (\<lambda>p. - montant p) (sort_key (\<lambda>p. - montant p) (map ?f (entries ?M))))"
    by (rule sorted_sort_key)
  then have "sorted_wrt (\<lambda>a b. montant a \<ge> montant b)
      (sort_key (\<lambda>p. - montant p) (map ?f (entries ?M)))"
    by (simp add: sorted_map)
  then show "sorted_wrt (\<lambda>a b. montant a \<ge> montant b) (topProducts ts)"
    unfolding topProducts_def by (rule sorted_wrt_take)
  have "distinct (map fst ?M)"
    by (rule distinct_foldl_productStep) simp
  then have "distinct (map fst (entries ?M))"
    by (rule distinct_entries)
  moreover have "map produit (map ?f (entries ?M)) = map fst (entries ?M)"
    by (simp add: comp_def case_prod_unfold)
  ultimately have "distinct (map produit (sort_key (\<lambda>p. - montant p) (map ?f (entries ?M))))"
    by (simp only: distinct_map_sort_key)
  then have "distinct (take 8 (map produit (sort_key (\<lambda>p. - montant p) (map ?f (entries ?M)))))"
    by (rule distinct_take)
  then show "distinct (map produit (topProducts ts))"
    by (simp add: topProducts_def take_map)
next
  fix p assume p: "p \<in> set (topProducts ts)"
  from topProducts_member [OF p] show "produit p \<noteq> []"
    by simp
  from topProducts_member [OF p]
  have "filter (\<lambda>t. ttype t = ''Sale'' \<and> product t = Some (produit p)) ts \<noteq> []"
    by simp
  then show "\<exists>t \<in> set ts. ttype t = ''Sale'' \<and> product t = Some (produit p)"
    by (auto simp: filter_empty_conv)
  from topProducts_member [OF p]
  show "quantite p = sum_list (map quantityOr0
            (filter (\<lambda>t. ttype t = ''Sale'' \<and> product t = Some (produit p)) ts))"
    by simp
  from topProducts_member [OF p]
  show "montant p = sum_list (map amount
            (filter (\<lambda>t. ttype t = ''Sale'' \<and> product t = Some (produit p)) ts))"
    by simp
qed

text \<open>
  Two sales of the same product, of 100 and of 50, merge into one entry of
  150 with the quantities added; an expense and a sale without product do not
  appear.
\<close>

lemma topProducts_ranking_example:
  "topProducts
     [\<lparr>tid = ''t1'', ttype = ''Sale'', product = Some ''Lamp'', quantity = Some 2,
       amount = 100, created_at = 19729 * 86400000\<rparr>,
      \<lparr>tid = ''t2'', ttype = ''Expense'', product = None, quantity = None,
       amount = 20, created_at = 19729 * 86400000\<rparr>,
      \<lparr>tid = ''t3'', ttype = ''Sale'', product = Some ''Cable'', quantity = Some 1,
       amount = 120, created_at = 19730 * 86400000\<rparr>,
      \<lparr>tid = ''t4'', ttype = ''Sale'', product = Some ''Lamp'', quantity = Some 3,
       amount = 50, created_at = 19731 * 86400000\<rparr>,
      \<lparr>tid = ''t5'', ttype = ''Sale'', product = None, quantity = Some 1,
       amount = 5, created_at = 19731 * 86400000\<rparr>]
   = [\<lparr>produit = ''Lamp'', quantite = 5, montant = 150\<rparr>,
      \<lparr>produit = ''Cable'', quantite = 1, montant = 120\<rparr>]
   \<and> sum_list (map amount (filter (\<lambda>t. ttype t = ''Sale'' \<and> product t = Some ''Lamp'')
     [\<lparr>tid = ''t1'', ttype = ''Sale'', product = Some ''Lamp'', quantity = Some 2,
       amount = 100, created_at = 19729 * 86400000\<rparr>,
      \<lparr>tid = ''t2'', ttype = ''Expense'', product = None, quantity = None,
       amount = 20, created_at = 19729 * 86400000\<rparr>,
      \<lparr>tid = ''t3'', ttype = ''Sale'', product = Some ''Cable'', quantity = Some 1,
       amount = 120, created_at = 19730 * 86400000\<rparr>,
      \<lparr>tid = ''t4'', ttype = ''Sale'', product = Some ''Lamp'', quantity = Some 3,
       amount = 50, created_at = 19731 * 86400000\<rparr>,
      \<lparr>tid = ''t5'', ttype = ''Sale'', product = None, quantity = Some 1,
       amount = 5, created_at = 19731 * 86400000\<rparr>])) = 150"
proof -
  let ?ts = "[\<lparr>tid = ''t1'', ttype = ''Sale'', product = Some ''Lamp'', quantity = Some 2,
       amount = 100, created_at = 19729 * 86400000\<rparr>,
      \<lparr>tid = ''t2'', ttype = ''Expense'', product = None, quantity = None,
       amount = 20, created_at = 19729 * 86400000\<rparr>,
      \<lparr>tid = ''t3'', ttype = ''Sale'', product = Some ''Cable'', quantity = Some 1,
       amount = 120, created_at = 19730 * 86400000\<rparr>,
      \<lparr>tid = ''t4'', ttype = ''Sale'', product = Some ''Lamp'', quantity = Some 3,
       amount = 50, created_at = 19731 * 86400000\<rparr>,
      \<lparr>tid = ''t5'', ttype = ''Sale'', product = None, quantity = Some 1,
       amount = 5, created_at = 19731 * 86400000\<rparr>]"
  let ?p = "\<lparr>produit = ''Lamp'', quantite = 5, montant = 150\<rparr>"
  have e: "topProducts ?ts = [?p, \<lparr>produit = ''Cable'', quantite = 1, montant = 120\<rparr>]"
    by code_simp
  have "?p \<in> set (topProducts ?ts)"
    by (simp only: e) simp
  with topProducts_ranking [of ?ts]
  have "montant ?p = sum_list (map amount
      (filter (\<lambda>t. ttype t = ''Sale'' \<and> product t = Some (produit ?p)) ?ts))"
    by blast
  then have "sum_list (map amount
      (filter (\<lambda>t. ttype t = ''Sale'' \<and> product t = Some ''Lamp'') ?ts)) = 150"
    by simp
  with e show ?thesis
    by simp
qed


lemma topProducts_take: "topProducts ts = take 8 (rankedProducts ts)"
  by (simp add: topProducts_def rankedProducts_def)

lemma rankedProducts_sorted:
  "sorted_wrt (\<lambda>a b. montant a \<ge> montant b) (rankedProducts ts)"
proof -
  have "sorted (map (\<lambda>p. - montant p) (rankedProducts ts))"
    unfolding rankedProducts_def by (rule sorted_sort_key)
  then show ?thesis
    by (simp add: sorted_map)
qed

lemma rankedProducts_has:
  assumes "t \<in> set ts" and "ttype t = ''Sale''" and "product t = Some k"
    and "k \<noteq> []" and "\<not> inherited k"
  shows "\<lparr>produit = k,
          quantite = sum_list (map quantityOr0
            (filter (\<lambda>t. ttype t = ''Sale'' \<and> product t = Some k) ts)),
          montant = sum_list (map amount
            (filter (\<lambda>t. ttype t = ''Sale'' \<and> product t = Some k) ts))\<rparr>
         \<in> set (rankedProducts ts)"
proof -
  let ?M = "foldl productStep [] (filter namedSale ts)"
  let ?S = "filter (\<lambda>t. ttype t = ''Sale'' \<and> product t = Some k) ts"
  have f: "filter (\<lambda>t. product t = Some k) (filter namedSale ts) = ?S"
    by (rule filter_namedSale_name [OF assms(4)])
  have "t \<in> set ?S"
    using assms by simp
  then have ne: "?S \<noteq> []"
    by (metis empty_iff list.set(1))
  have "map_of ?M k = Some (sumsFor k (filter namedSale ts))"
    unfolding map_of_foldl_productStep f using ne assms(5) by simp
  then have "(k, sumsFor k (filter namedSale ts)) \<in> set ?M"
    by (rule map_of_SomeD)
  then have "(k, sumsFor k (filter namedSale ts)) \<in> set (entries ?M)"
    by (simp add: set_entries)
  then have "(\<lambda>(k, v). \<lparr>produit = k, quantite = sumQuantite v, montant = sumMontant v\<rparr>)
      (k, sumsFor k (filter namedSale ts)) \<in> set (rankedProducts ts)"
    unfolding rankedProducts_def set_sort set_map by (rule imageI)
  then show ?thesis
    unfolding sumsFor_def f by simp
qed

lemma take_sorted_bound:
  assumes "sorted_wrt (\<lambda>a b. g a \<ge> g b) xs" and "p \<in> set xs" and "p \<notin> set (take n xs)"
    and "q \<in> set (take n xs)"
  shows "(g q :: rat) \<ge> g p"
proof -
  from assms(2) obtain i where i: "i < length xs" "xs ! i = p"
    by (auto simp: in_set_conv_nth)
  from assms(4) obtain j where j: "j < length (take n xs)" "take n xs ! j = q"
    by (auto simp: in_set_conv_nth)
  then have jn: "j < n" "j < length xs" and q: "xs ! j = q"
    by simp_all
  have "\<not> i < n"
  proof
    assume "i < n"
    with i have "take n xs ! i = p" "i < length (take n xs)"
      by simp_all
    then have "p \<in> set (take n xs)"
      by (metis nth_mem)
    with assms(3) show False by simp
  qed
  with jn have "j < i" by simp
  with assms(1) i(1) have "g (xs ! j) \<ge> g (xs ! i)"
    using sorted_wrt_nth_less [of "\<lambda>a b. g a \<ge> g b" xs j i] by simp
  with i q show ?thesis by simp
qed

text \<open>
  Which names are listed.  A product name that is not empty and not the name
  of a member of \<^verbatim>\<open>Object.prototype\<close>, carried by a Sale transaction, is
  in the ranking, unless the ranking is full with 8 entries that all have at
  least its revenue.
\<close>

lemma topProducts_complete:
  assumes "t \<in> set ts" and "ttype t = ''Sale''" and "product t = Some k"
    and "k \<noteq> []" and "\<not> inherited k"
  shows "(\<exists>p \<in> set (topProducts ts). produit p = k)
       \<or> (length (topProducts ts) = 8
          \<and> (\<forall>q \<in> set (topProducts ts).
                montant q \<ge> sum_list (map amount
                  (filter (\<lambda>t. ttype t = ''Sale'' \<and> product t = Some k) ts))))"
proof -
  let ?p = "\<lparr>produit = k,
          quantite = sum_list (map quantityOr0
            (filter (\<lambda>t. ttype t = ''Sale'' \<and> product t = Some k) ts)),
          montant = sum_list (map amount
            (filter (\<lambda>t. ttype t = ''Sale'' \<and> product t = Some k) ts))\<rparr>"
  have p: "?p \<in> set (rankedProducts ts)"
    by (rule rankedProducts_has [OF assms])
  show ?thesis
  proof (cases "?p \<in> set (topProducts ts)")
    case True
    then have "\<exists>p \<in> set (topProducts ts). produit p = k"
      by (intro bexI [of _ ?p]) simp_all
    then show ?thesis by simp
  next
    case False
    then have n: "?p \<notin> set (take 8 (rankedProducts ts))"
      by (simp add: topProducts_take)
    have "\<not> length (rankedProducts ts) \<le> 8"
      using p n by auto
    then have l: "length (topProducts ts) = 8"
      by (simp add: topProducts_take)
    have "\<forall>q \<in> set (topProducts ts). montant q \<ge> montant ?p"
      using take_sorted_bound [OF rankedProducts_sorted p n]
      by (simp add: topProducts_take)
    with l show ?thesis by simp
  qed
qed

text \<open>
  Claim C4.  The ranking is to accumulate the sales of every product name.
  The dictionary is a plain object, and a product named like a member of
  \<^verbatim>\<open>Object.prototype\<close> never gets a property of its own.  Two sales, 100 for
  a product named \<^verbatim>\<open>constructor\<close> and 50 for a lamp: the ranking lists the
  lamp alone, and the product with the highest revenue is missing.
\<close>

theorem topProducts_inherited_name:
  "topProducts
     [\<lparr>tid = ''t1'', ttype = ''Sale'', product = Some ''constructor'', quantity = Some 2,
       amount = 100, created_at = 19729 * 86400000\<rparr>,
      \<lparr>tid = ''t2'', ttype = ''Sale'', product = Some ''Lamp'', quantity = Some 1,
       amount = 50, created_at = 19729 * 86400000\<rparr>]
   = [\<lparr>produit = ''Lamp'', quantite = 1, montant = 50\<rparr>]"
  by code_simp

section \<open>Properties of the stock tiers\<close>

text \<open>
  Claim C8.  The low-stock predicate is stock below 5: a product with a stock
  of 5 or more gets the green class and is never flagged, every product with
  a stock below 5 is flagged (red or orange).  Among the flagged, stock 0 is
  shown red and a stock from 1 to 4 orange, on the product card as well as in
  the low-stock table of the dashboard.
\<close>

theorem stock_tiers:
  "(flaggedLow s \<longleftrightarrow> s < 5)
   \<and> (5 \<le> s \<longrightarrow> stockClass s = ''text-green-600'')
   \<and> (s < 5 \<longrightarrow> stockClass s = ''text-red-600'' \<or> stockClass s = ''text-orange-600'')
   \<and> (s = 0 \<longrightarrow> stockClass s = ''text-red-600'' \<and> lowStockBadge s = ''bg-red-100 text-red-800'')
   \<and> (1 \<le> s \<and> s \<le> 4 \<longrightarrow>
        stockClass s = ''text-orange-600'' \<and> lowStockBadge s = ''bg-orange-100 text-orange-800'')"
  by (simp add: flaggedLow_def stockClass_def lowStockBadge_def)

text \<open>Stocks 0 and 4 are flagged, stock 5 is not.\<close>

theorem stock_tiers_witness:
  "flaggedLow 0 \<and> flaggedLow 4 \<and> \<not> flaggedLow 5
   \<and> stockClass 0 = ''text-red-600'' \<and> lowStockBadge 0 = ''bg-red-100 text-red-800''
   \<and> stockClass 4 = ''text-orange-600'' \<and> lowStockBadge 4 = ''bg-orange-100 text-orange-800''
   \<and> stockClass 5 = ''text-green-600''"
  using stock_tiers [of 0] stock_tiers [of 4] stock_tiers [of 5] by simp

section \<open>Properties of the transaction form\<close>



lemma isDigit_digitValue: "isDigit c \<Longrightarrow> digitValue c = Some (of_char c - 48)"
  by (simp add: isDigit_def digitValue_def Let_def)

lemma isDigit_value_lt: "isDigit c \<Longrightarrow> (of_char c :: nat) - 48 < 10"
  by (auto simp: isDigit_def)

lemma leadingDigits_all:
  "list_all isDigit s \<Longrightarrow> leadingDigits 10 s = map (\<lambda>c. of_char c - 48) s"
  by (induction s) (simp_all add: isDigit_digitValue isDigit_value_lt)

lemma isDigit_not_space: "isDigit c \<Longrightarrow> \<not> isWhiteSpace c"
  by (auto simp: isDigit_def isWhiteSpace_def)

lemma isDigit_not_sign: "isDigit c \<Longrightarrow> c \<noteq> CHR ''+'' \<and> c \<noteq> CHR ''-''"
  by (auto simp: isDigit_def)

lemma not_isDigit_x: "\<not> isDigit (CHR ''x'') \<and> \<not> isDigit (CHR ''X'')"
  by (simp add: isDigit_def)

lemma digits_not_hex:
  assumes "list_all isDigit s"
  shows "take 2 s \<noteq> ''0x'' \<and> take 2 s \<noteq> ''0X''"
proof (cases s)
  case Nil
  then show ?thesis by simp
next
  case (Cons c cs)
  show ?thesis
  proof (cases cs)
    case Nil
    with Cons show ?thesis by simp
  next
    case (Cons d ds)
    with \<open>s = c # cs\<close> assms have "isDigit d" by simp
    then have "d \<noteq> CHR ''x'' \<and> d \<noteq> CHR ''X''"
      using not_isDigit_x by auto
    with Cons \<open>s = c # cs\<close> show ?thesis by simp
  qed
qed

lemma parseInt_digits:
  assumes "s \<noteq> []" and "list_all isDigit s"
  shows "parseInt s = Num (of_nat (digitsValue s))"
proof -
  from assms obtain c cs where s: "s = c # cs" and c: "isDigit c"
    by (cases s) auto
  have w: "dropWhile isWhiteSpace s = s"
    using c by (simp add: s isDigit_not_space)
  have sg: "c \<noteq> CHR ''+''" "c \<noteq> CHR ''-''"
    using isDigit_not_sign [OF c] by simp_all
  have n: "(case s of [] \<Rightarrow> False | c # cs \<Rightarrow> c = CHR ''-'') = False"
    using sg by (simp add: s)
  have s1: "(case s of [] \<Rightarrow> s | c # cs \<Rightarrow> if c = CHR ''+'' \<or> c = CHR ''-'' then cs else s) = s"
    using sg by (simp add: s)
  have h: "(take 2 s = ''0x'' \<or> take 2 s = ''0X'') = False"
    using digits_not_hex [OF assms(2)] by simp
  have l: "leadingDigits 10 s = map (\<lambda>c. of_char c - 48) s"
    by (rule leadingDigits_all [OF assms(2)])
  have f: "foldl (\<lambda>n d. 10 * n + d) 0 (map (\<lambda>c. of_char c - 48) s) = digitsValue s"
    by (simp add: digitsValue_def foldl_map)
  have "parseInt s = (if leadingDigits 10 s = [] then NaN
      else Num (of_int (int (foldl (\<lambda>n d. 10 * n + d) 0 (leadingDigits 10 s)))))"
    unfolding parseInt_def Let_def w n s1 h by simp
  then show ?thesis
    using assms(1) by (simp add: l f)
qed

text \<open>
  What the submit handler guarantees by itself.  For a form of type Sale it
  stops with the error when the product or the quantity text is empty; a
  request of type Sale carries the product id, not empty, and as quantity the
  value that \<^verbatim>\<open>parseInt\<close> reads from the quantity text, not empty.  When
  that text is a decimal numeral of a positive integer the quantity is that
  positive integer.  A request of another type carries neither a product id
  nor a quantity.
\<close>

lemma handleSubmit_request:
  "(f_type fd = ''Sale'' \<and> (f_product_id fd = [] \<or> f_quantity fd = []) \<longrightarrow>
      handleSubmit parseFloat fd = Blocked ''Product and quantity are required for sales'')
   \<and> (handleSubmit parseFloat fd = Issued r \<longrightarrow> r_type r = f_type fd)
   \<and> (handleSubmit parseFloat fd = Issued r \<and> r_type r = ''Sale'' \<longrightarrow>
        f_product_id fd \<noteq> [] \<and> f_quantity fd \<noteq> []
        \<and> r_product_id r = Some (f_product_id fd)
        \<and> r_quantity r = Some (parseInt (f_quantity fd)))
   \<and> (handleSubmit parseFloat fd = Issued r \<and> r_type r \<noteq> ''Sale'' \<longrightarrow>
        r_product_id r = None \<and> r_quantity r = None)
   \<and> (handleSubmit parseFloat fd = Issued r \<and> r_type r = ''Sale''
        \<and> list_all isDigit (f_quantity fd) \<and> 0 < digitsValue (f_quantity fd) \<longrightarrow>
        r_quantity r = Some (Num (of_nat (digitsValue (f_quantity fd)))))"
proof -
  have a: "f_type fd = ''Sale'' \<and> (f_product_id fd = [] \<or> f_quantity fd = []) \<longrightarrow>
      handleSubmit parseFloat fd = Blocked ''Product and quantity are required for sales''"
    by (simp add: handleSubmit_def Let_def)
  have b: "handleSubmit parseFloat fd = Issued r \<longrightarrow> r_type r = f_type fd"
    by (auto simp: handleSubmit_def Let_def split: if_splits)
  have c: "handleSubmit parseFloat fd = Issued r \<and> r_type r = ''Sale'' \<longrightarrow>
        f_product_id fd \<noteq> [] \<and> f_quantity fd \<noteq> []
        \<and> r_product_id r = Some (f_product_id fd)
        \<and> r_quantity r = Some (parseInt (f_quantity fd))"
    by (auto simp: handleSubmit_def Let_def split: if_splits)
  have d: "handleSubmit parseFloat fd = Issued r \<and> r_type r \<noteq> ''Sale'' \<longrightarrow>
        r_product_id r = None \<and> r_quantity r = None"
    by (auto simp: handleSubmit_def Let_def split: if_splits)
  have e: "handleSubmit parseFloat fd = Issued r \<and> r_type r = ''Sale''
        \<and> list_all isDigit (f_quantity fd) \<and> 0 < digitsValue (f_quantity fd) \<longrightarrow>
        r_quantity r = Some (Num (of_nat (digitsValue (f_quantity fd))))"
    using c by (auto simp: parseInt_digits)
  from a b c d e show ?thesis
    by blast
qed

text \<open>
  A sale of 3 units, the same form with the quantity left empty, and an
  expense.
\<close>

lemma handleSubmit_request_example:
  "handleSubmit parseDecimal
     \<lparr>f_type = ''Sale'', f_product_id = ''p1'', f_quantity = ''3'', f_amount = ''37.5'',
      f_comment = []\<rparr>
   = Issued \<lparr>r_type = ''Sale'', r_amount = Num (75 / 2), r_comment = None,
       r_product_id = Some ''p1'', r_quantity = Some (Num 3)\<rparr>
   \<and> parseInt ''3'' = Num 3
   \<and> handleSubmit parseDecimal
     \<lparr>f_type = ''Sale'', f_product_id = ''p1'', f_quantity = [], f_amount = ''37.5'',
      f_comment = []\<rparr>
   = Blocked ''Product and quantity are required for sales''
   \<and> handleSubmit parseDecimal
     \<lparr>f_type = ''Expense'', f_product_id = [], f_quantity = [], f_amount = ''20'',
      f_comment = ''rent''\<rparr>
   = Issued \<lparr>r_type = ''Expense'', r_amount = Num 20, r_comment = Some ''rent'',
       r_product_id = None, r_quantity = None\<rparr>"
proof -
  let ?sale = "\<lparr>f_type = ''Sale'', f_product_id = ''p1'', f_quantity = ''3'',
      f_amount = ''37.5'', f_comment = []\<rparr>"
  let ?r = "\<lparr>r_type = ''Sale'', r_amount = Num (75 / 2), r_comment = None,
       r_product_id = Some ''p1'', r_quantity = Some (Num 3)\<rparr>"
  let ?empty = "\<lparr>f_type = ''Sale'', f_product_id = ''p1'', f_quantity = [],
      f_amount = ''37.5'', f_comment = []\<rparr>"
  have s: "handleSubmit parseDecimal ?sale = Issued ?r"
    by code_simp
  with handleSubmit_request [of ?sale parseDecimal ?r]
  have "r_quantity ?r = Some (parseInt (f_quantity ?sale))"
    by simp
  then have q: "parseInt ''3'' = Num 3"
    by simp
  from handleSubmit_request [of ?empty parseDecimal]
  have b: "handleSubmit parseDecimal ?empty = Blocked ''Product and quantity are required for sales''"
    by simp
  have x: "handleSubmit parseDecimal
     \<lparr>f_type = ''Expense'', f_product_id = [], f_quantity = [], f_amount = ''20'',
      f_comment = ''rent''\<rparr>
   = Issued \<lparr>r_type = ''Expense'', r_amount = Num 20, r_comment = Some ''rent'',
       r_product_id = None, r_quantity = None\<rparr>"
    by code_simp
  from s q b x show ?thesis
    by simp
qed

text \<open>
  The quantity input lets 3 through and keeps 0, negative numbers, fractions
  and the empty text out.
\<close>

lemma quantityInput_examples:
  "quantityInputValid ''3'' \<and> \<not> quantityInputValid ''0'' \<and> \<not> quantityInputValid ''-1''
   \<and> \<not> quantityInputValid ''2.5'' \<and> \<not> quantityInputValid []"
  by code_simp

text \<open>
  Claim C10.  A request of type Sale is to carry a positive integer as
  quantity.  The quantity text \<^verbatim>\<open>0.1e1\<close> is the number 1 for the input,
  which lets it through, and the number 0 for \<^verbatim>\<open>parseInt\<close>, which stops
  at the point.  With a product at 12.5 selected, typing that quantity sets
  the amount to 0, the form is valid, and the handler issues a request of
  type Sale with quantity 0.
\<close>

theorem handleSubmit_exponent_quantity:
  "handleQuantityChange showDecimal
      [\<lparr>p_id = ''p1'', p_name = ''Lamp'', selling_price = 25 / 2, p_stock = 9\<rparr>]
      \<lparr>f_type = ''Sale'', f_product_id = ''p1'', f_quantity = [], f_amount = [],
        f_comment = []\<rparr> ''0.1e1''
   = \<lparr>f_type = ''Sale'', f_product_id = ''p1'', f_quantity = ''0.1e1'', f_amount = ''0'',
       f_comment = []\<rparr>
   \<and> floatingPointNumber ''0.1e1'' = Some 1
   \<and> formValid \<lparr>f_type = ''Sale'', f_product_id = ''p1'', f_quantity = ''0.1e1'',
       f_amount = ''0'', f_comment = []\<rparr>
   \<and> parseInt ''0.1e1'' = Num 0
   \<and> handleSubmit parseDecimal
       \<lparr>f_type = ''Sale'', f_product_id = ''p1'', f_quantity = ''0.1e1'', f_amount = ''0'',
        f_comment = []\<rparr>
     = Issued \<lparr>r_type = ''Sale'', r_amount = Num 0, r_comment = None,
         r_product_id = Some ''p1'', r_quantity = Some (Num 0)\<rparr>"
  by code_simp

end
